theory Spec2Isabelle
  imports Main
begin

section \<open>Data model of the transaction form\<close>

text \<open>
  The form component (\<open>TransactionForm\<close>) keeps its draft in React state cells and reacts to
  clicks, input changes and promise completions. Each state cell becomes a field of the
  record \<open>FormState\<close>; each handler becomes a function from the state to the new state.
  \<open>BigNumber\<close> (ethers) is an arbitrary-precision signed integer.
\<close>

type_synonym BigNumber = int

datatype ChainIcon = EthChainIcon | PolygonHermezChainIcon

datatype JsonRpcProvider = JsonRpcProvider string

record Chain =
  key :: string
  networkId :: int
  Icon :: ChainIcon
  provider :: JsonRpcProvider

record Token =
  name :: string
  address :: string
  symbol :: string
  decimals :: nat
  logoURI :: string

text \<open>
  The environment context is declared outside the files at hand; the form reads
  \<open>env.chains\<close> (the configured chains, in order) and \<open>env.tokens.ETH\<close> only.
\<close>

record Env =
  env_chains :: "Chain list"
  env_tokens_ETH :: Token

text \<open>
  Modelled from the spec: the type \<open>AsyncTask\<close> of \<open>src/utils/types\<close>, a tagged union over
  pending, successful (with data) and failed (with an error). The form reads and writes the
  tags \<open>"pending"\<close>, \<open>"successful"\<close> and \<open>"failed"\<close> only.
\<close>

datatype ('d, 'e) AsyncTask = Pending | Successful 'd | Failed 'e

text \<open>The pair of selected chains (\<open>from\<close> and \<open>to\<close> in the source).\<close>

record FormChains =
  from_chain :: Chain
  to_chain :: Chain

text \<open>
  The record handed to \<open>onSubmit\<close>; its fields are \<open>token\<close>, \<open>from\<close>, \<open>to\<close>, \<open>amount\<close>
  and \<open>estimatedFee\<close> in the source.
\<close>

record TransactionData =
  tx_token :: Token
  tx_from :: Chain
  tx_to :: Chain
  tx_amount :: BigNumber
  tx_estimatedFee :: BigNumber

text \<open>
  The picker list the form opens: its \<open>type\<close> and its \<open>items\<close>. Its \<open>onClick\<close> is always
  the handler \<open>onChainFromButtonClick\<close>.
\<close>

record PickerList =
  list_type :: string
  items :: "Chain list"

text \<open>The eight \<open>useState\<close> cells, in the order of their declaration.\<close>

record FormState =
  list :: "PickerList option"
  balanceFrom :: "BigNumber option"
  balanceTo :: "BigNumber option"
  inputError :: "string option"
  chains :: "FormChains option"
  token :: "Token option"
  amount :: "BigNumber option"
  estimatedFee :: "(BigNumber, string) AsyncTask"

definition initialState :: FormState where
  "initialState =
     \<lparr>list = None, balanceFrom = None, balanceTo = None, inputError = None,
      chains = None, token = None, amount = None, estimatedFee = Pending\<rparr>"

section \<open>Constants\<close>

definition ETH_TOKEN :: Token where
  "ETH_TOKEN =
     \<lparr>name = ''Ether'',
      address = ''0x0000000000000000000000000000000000000000'',
      symbol = ''ETH'',
      decimals = 18,
      logoURI = ''https://raw.githubusercontent.com/Uniswap/interface/main/src/assets/images/ethereum-logo.png''\<rparr>"

definition getChains :: "string \<Rightarrow> string \<Rightarrow> int \<Rightarrow> Chain list" where
  "getChains ethereumRpcUrl polygonHermezRpcUrl polygonHermezNetworkId =
     [\<lparr>key = ''ethereum'', networkId = 0, Icon = EthChainIcon,
       provider = JsonRpcProvider ethereumRpcUrl\<rparr>,
      \<lparr>key = ''polygon-hermez'', networkId = polygonHermezNetworkId,
       Icon = PolygonHermezChainIcon,
       provider = JsonRpcProvider polygonHermezRpcUrl\<rparr>]"

section \<open>Synchronous handlers\<close>

text \<open>
  \<open>onChainFromButtonClick\<close>: under \<open>env && chains\<close>, look for the first configured chain
  whose key differs from the chosen one; when there is one, store the new pair, close the
  picker and clear the amount. Nothing else is written.
\<close>

definition onChainFromButtonClick :: "Env option \<Rightarrow> FormState \<Rightarrow> Chain \<Rightarrow> FormState" where
  "onChainFromButtonClick env s frm =
     (case env of
        None \<Rightarrow> s
      | Some e \<Rightarrow>
          (case chains s of
             None \<Rightarrow> s
           | Some c \<Rightarrow>
               (case find (\<lambda>chain. key chain \<noteq> key frm) (env_chains e) of
                  None \<Rightarrow> s
                | Some to \<Rightarrow>
                    s\<lparr>chains := Some \<lparr>from_chain = frm, to_chain = to\<rparr>,
                      list := None,
                      amount := None\<rparr>)))"

definition onInputChange :: "FormState \<Rightarrow> BigNumber option \<Rightarrow> string option \<Rightarrow> FormState" where
  "onInputChange s amount' error' = s\<lparr>amount := amount', inputError := error'\<rparr>"

text \<open>
  \<open>onFormSubmit\<close>: the value is the argument of the call to \<open>onSubmit\<close>, or \<open>None\<close> when
  the guard fails and \<open>onSubmit\<close> is not called. A \<open>BigNumber\<close> is an object, so the test
  \<open>amount\<close> of the guard is true exactly when the amount is defined.
\<close>

definition onFormSubmit :: "FormState \<Rightarrow> TransactionData option" where
  "onFormSubmit s =
     (case chains s of
        None \<Rightarrow> None
      | Some c \<Rightarrow>
          (case token s of
             None \<Rightarrow> None
           | Some t \<Rightarrow>
               (case amount s of
                  None \<Rightarrow> None
                | Some a \<Rightarrow>
                    (case estimatedFee s of
                       Successful fee \<Rightarrow>
                         Some \<lparr>tx_token = t, tx_from = from_chain c, tx_to = to_chain c,
                               tx_amount = a, tx_estimatedFee = fee\<rparr>
                     | _ \<Rightarrow> None))))"

text \<open>
  The \<open>disabled\<close> attribute of the submit button:
  \<open>!amount || amount.isZero() || inputError !== undefined || estimatedFee.status === "failed"\<close>.
\<close>

definition isFailed :: "('d, 'e) AsyncTask \<Rightarrow> bool" where
  "isFailed t = (case t of Failed e \<Rightarrow> True | _ \<Rightarrow> False)"

definition isSuccessful :: "('d, 'e) AsyncTask \<Rightarrow> bool" where
  "isSuccessful t = (case t of Successful d \<Rightarrow> True | _ \<Rightarrow> False)"

definition submitDisabled :: "FormState \<Rightarrow> bool" where
  "submitDisabled s =
     (amount s = None \<or> amount s = Some 0 \<or> inputError s \<noteq> None \<or> isFailed (estimatedFee s))"

section \<open>Asynchronous calls and their completions\<close>

text \<open>
  A promise settles once, fulfilled with a value or rejected with a thrown value. The type
  of thrown values is left open (\<open>'err\<close>).
\<close>

datatype ('a, 'e) Settled = Fulfilled 'a | Rejected 'e

text \<open>The argument of \<open>estimateBridgeGasPrice\<close> (\<open>from\<close>, \<open>to\<close>, \<open>token\<close>, \<open>destinationAddress\<close>).\<close>

record EstimateArgs =
  ea_from :: Chain
  ea_to :: Chain
  ea_token :: Token
  destinationAddress :: string

text \<open>The argument of \<open>openSnackbar\<close> (\<open>type\<close> and \<open>text\<close>).\<close>

record SnackbarMessage =
  msg_type :: string
  msg_text :: string

text \<open>
  A call \<open>provider.getBalance(account)\<close> together with the setter its \<open>then\<close> was given.
\<close>

datatype BalanceCell = BalanceFrom | BalanceTo

record BalanceCall =
  bc_provider :: JsonRpcProvider
  bc_account :: string
  bc_cell :: BalanceCell

text \<open>
  The component and what surrounds it: the state cells, the calls in flight (in the order
  they were started), the calls made to \<open>openSnackbar\<close>, and the rejections that reached
  no handler.
\<close>

record 'err World =
  st :: FormState
  estimateCalls :: "EstimateArgs list"
  balanceCalls :: "BalanceCall list"
  snackbar :: "SnackbarMessage list"
  unhandled :: "'err list"

definition mount :: "FormState \<Rightarrow> 'err World" where
  "mount s = \<lparr>st = s, estimateCalls = [], balanceCalls = [], snackbar = [], unhandled = []\<rparr>"

text \<open>
  The effect on \<open>[chains, account]\<close>: under \<open>chains\<close>, two balance calls are started, each
  with a \<open>then\<close> and no \<open>catch\<close>.
\<close>

definition balanceEffect :: "string \<Rightarrow> 'err World \<Rightarrow> 'err World" where
  "balanceEffect account w =
     (case chains (st w) of
        None \<Rightarrow> w
      | Some c \<Rightarrow>
          w\<lparr>balanceCalls := balanceCalls w @
               [\<lparr>bc_provider = provider (from_chain c), bc_account = account, bc_cell = BalanceFrom\<rparr>,
                \<lparr>bc_provider = provider (to_chain c), bc_account = account, bc_cell = BalanceTo\<rparr>]\<rparr>)"

text \<open>
  A balance promise settles: \<open>then(setBalanceFrom)\<close> or \<open>then(setBalanceTo)\<close> runs when it
  is fulfilled; a rejection passes through \<open>then\<close> and meets no handler.
\<close>

definition balanceSettled :: "BalanceCell \<Rightarrow> (BigNumber, 'err) Settled \<Rightarrow> 'err World \<Rightarrow> 'err World" where
  "balanceSettled cell outcome w =
     (case outcome of
        Fulfilled b \<Rightarrow>
          (case cell of
             BalanceFrom \<Rightarrow> w\<lparr>st := (st w)\<lparr>balanceFrom := Some b\<rparr>\<rparr>
           | BalanceTo \<Rightarrow> w\<lparr>st := (st w)\<lparr>balanceTo := Some b\<rparr>\<rparr>)
      | Rejected error \<Rightarrow> w\<lparr>unhandled := unhandled w @ [error]\<rparr>)"

definition removeAt :: "nat \<Rightarrow> 'a list \<Rightarrow> 'a list" where
  "removeAt i xs = take i xs @ drop (Suc i) xs"

text \<open>The \<open>i\<close>-th balance call in flight settles; there is no such event when \<open>i\<close> is out of range.\<close>

definition settleBalance :: "nat \<Rightarrow> (BigNumber, 'err) Settled \<Rightarrow> 'err World \<Rightarrow> 'err World" where
  "settleBalance i outcome w =
     (if i < length (balanceCalls w)
      then balanceSettled (bc_cell (balanceCalls w ! i)) outcome
             (w\<lparr>balanceCalls := removeAt i (balanceCalls w)\<rparr>)
      else w)"

text \<open>
  The effect on \<open>[account, chains, token, \<dots>]\<close>: under \<open>chains && token\<close> one estimation call
  is started for the current chains, token and account. The effect writes no state cell.
\<close>

definition estimateEffect :: "string \<Rightarrow> 'err World \<Rightarrow> 'err World" where
  "estimateEffect account w =
     (case chains (st w) of
        None \<Rightarrow> w
      | Some c \<Rightarrow>
          (case token (st w) of
             None \<Rightarrow> w
           | Some t \<Rightarrow>
               w\<lparr>estimateCalls := estimateCalls w @
                    [\<lparr>ea_from = from_chain c, ea_to = to_chain c, ea_token = t,
                      destinationAddress = account\<rparr>]\<rparr>))"

definition insufficientFundsMessage :: string where
  "insufficientFundsMessage =
     ''You don'' @ [CHR 0x27] @ ''t have enough ETH to pay for the fees''"

text \<open>
  The estimation promise settles. \<open>isEthersInsufficientFundsError\<close> and \<open>parseError\<close> are
  imported from files not at hand and are parameters here; \<open>parseError\<close> returns a promise,
  whose \<open>then\<close> calls \<open>openSnackbar\<close> and which has no \<open>catch\<close>. The callback of that
  \<open>then\<close> reads no state cell, so its run is folded into this step.
\<close>

definition estimateSettled ::
  "('err \<Rightarrow> bool) \<Rightarrow> ('err \<Rightarrow> (string, 'err) Settled) \<Rightarrow> (BigNumber, 'err) Settled
     \<Rightarrow> 'err World \<Rightarrow> 'err World" where
  "estimateSettled isEthersInsufficientFundsError parseError outcome w =
     (case outcome of
        Fulfilled fee \<Rightarrow> w\<lparr>st := (st w)\<lparr>estimatedFee := Successful fee\<rparr>\<rparr>
      | Rejected error \<Rightarrow>
          (if isEthersInsufficientFundsError error
           then w\<lparr>st := (st w)\<lparr>estimatedFee := Failed insufficientFundsMessage\<rparr>\<rparr>
           else
             (case parseError error of
                Fulfilled errorMessage \<Rightarrow>
                  w\<lparr>snackbar := snackbar w @
                       [\<lparr>msg_type = ''error-msg'', msg_text = errorMessage\<rparr>]\<rparr>
              | Rejected error' \<Rightarrow> w\<lparr>unhandled := unhandled w @ [error']\<rparr>)))"

text \<open>
  The \<open>i\<close>-th estimation call in flight settles. The callbacks do not look at which call
  they belong to.
\<close>

definition settleEstimate ::
  "('err \<Rightarrow> bool) \<Rightarrow> ('err \<Rightarrow> (string, 'err) Settled) \<Rightarrow> nat \<Rightarrow> (BigNumber, 'err) Settled
     \<Rightarrow> 'err World \<Rightarrow> 'err World" where
  "settleEstimate isEthersInsufficientFundsError parseError i outcome w =
     (if i < length (estimateCalls w)
      then estimateSettled isEthersInsufficientFundsError parseError outcome
             (w\<lparr>estimateCalls := removeAt i (estimateCalls w)\<rparr>)
      else w)"

text \<open>
  After \<open>chains\<close> or \<open>account\<close> has changed, React runs the two effects that depend on
  them, in the order of their declaration.
\<close>

definition runChainsEffects :: "string \<Rightarrow> 'err World \<Rightarrow> 'err World" where
  "runChainsEffects account w = estimateEffect account (balanceEffect account w)"

text \<open>Whether \<open>onChainFromButtonClick\<close> reaches its three setter calls.\<close>

definition chainsWritten :: "Env option \<Rightarrow> FormState \<Rightarrow> Chain \<Rightarrow> bool" where
  "chainsWritten env s frm =
     (case env of
        None \<Rightarrow> False
      | Some e \<Rightarrow>
          chains s \<noteq> None \<and> find (\<lambda>chain. key chain \<noteq> key frm) (env_chains e) \<noteq> None)"

text \<open>
  A click in the picker: the handler runs; when it has called \<open>setChains\<close> (always with a
  fresh object), the effects depending on \<open>chains\<close> run after the render.
\<close>

definition selectFrom :: "Env option \<Rightarrow> string \<Rightarrow> Chain \<Rightarrow> 'err World \<Rightarrow> 'err World" where
  "selectFrom env account frm w =
     (if chainsWritten env (st w) frm
      then runChainsEffects account (w\<lparr>st := onChainFromButtonClick env (st w) frm\<rparr>)
      else w\<lparr>st := onChainFromButtonClick env (st w) frm\<rparr>)"

text \<open>The chain pair has two different keys.\<close>

definition distinctPair :: "FormState \<Rightarrow> bool" where
  "distinctPair s =
     (case chains s of None \<Rightarrow> False | Some c \<Rightarrow> key (from_chain c) \<noteq> key (to_chain c))"

text \<open>A sequence of clicks in the picker, each choosing a source chain.\<close>

definition clicks :: "Env option \<Rightarrow> FormState \<Rightarrow> Chain list \<Rightarrow> FormState" where
  "clicks env s fs = foldl (onChainFromButtonClick env) s fs"

text \<open>The configured chains carry at least two different keys, as those of \<open>getChains\<close> do.\<close>

definition twoDistinctKeys :: "Chain list \<Rightarrow> bool" where
  "twoDistinctKeys cs = (\<exists>a \<in> set cs. \<exists>b \<in> set cs. key a \<noteq> key b)"

section \<open>Example values\<close>

definition exChains :: "Chain list" where
  "exChains = getChains ''http://l1'' ''http://l2'' 1"

definition exEthereum :: Chain where
  "exEthereum = \<lparr>key = ''ethereum'', networkId = 0, Icon = EthChainIcon,
                  provider = JsonRpcProvider ''http://l1''\<rparr>"

definition exPolygon :: Chain where
  "exPolygon = \<lparr>key = ''polygon-hermez'', networkId = 1, Icon = PolygonHermezChainIcon,
                 provider = JsonRpcProvider ''http://l2''\<rparr>"

definition exEnv :: Env where
  "exEnv = \<lparr>env_chains = exChains, env_tokens_ETH = ETH_TOKEN\<rparr>"

text \<open>A draft on the default pair with the native token, nothing typed, fee still pending.\<close>

definition exDraft :: FormState where
  "exDraft = initialState\<lparr>chains := Some \<lparr>from_chain = exEthereum, to_chain = exPolygon\<rparr>,
                          token := Some ETH_TOKEN\<rparr>"

text \<open>Thrown values as strings; the insufficient-funds kind is told by its code.\<close>

definition exIsInsufficient :: "string \<Rightarrow> bool" where
  "exIsInsufficient error = (error = ''INSUFFICIENT_FUNDS'')"

definition exParseError :: "string \<Rightarrow> (string, string) Settled" where
  "exParseError error = Fulfilled (''parsed: '' @ error)"

definition exAccount :: string where
  "exAccount = ''0xabc''"

text \<open>
  Two estimation calls in flight: the first for the default pair, the second after the
  source chain was changed.
\<close>

definition exTwoCalls :: "string World" where
  "exTwoCalls =
     selectFrom (Some exEnv) exAccount exPolygon (estimateEffect exAccount (mount exDraft))"

text \<open>The newer call is fulfilled with 7, then the older one with 5.\<close>

definition exRace :: "string World" where
  "exRace =
     settleEstimate exIsInsufficient exParseError 0 (Fulfilled 5)
       (settleEstimate exIsInsufficient exParseError 1 (Fulfilled 7) exTwoCalls)"

text \<open>A draft with an amount typed, an input error shown and a fee already estimated.\<close>

definition exFilled :: FormState where
  "exFilled = exDraft\<lparr>amount := Some 5, inputError := Some ''too much'',
                       estimatedFee := Successful 3\<rparr>"

section \<open>Unfolding rules\<close>

lemmas world_defs = mount_def estimateEffect_def balanceEffect_def runChainsEffects_def
  selectFrom_def chainsWritten_def onChainFromButtonClick_def settleEstimate_def
  estimateSettled_def settleBalance_def balanceSettled_def removeAt_def

lemmas ex_defs = exDraft_def initialState_def exEnv_def exChains_def getChains_def
  exEthereum_def exPolygon_def exAccount_def exIsInsufficient_def exParseError_def
  exTwoCalls_def exRace_def exFilled_def

section \<open>The submit button\<close>

lemma isFailed_iff: "isFailed t \<longleftrightarrow> (\<exists>e. t = Failed e)"
  by (cases t) (simp_all add: isFailed_def)

lemma isSuccessful_iff: "isSuccessful t \<longleftrightarrow> (\<exists>d. t = Successful d)"
  by (cases t) (simp_all add: isSuccessful_def)

text \<open>
  C1, as stated, fails: with an amount typed, no input error and the fee estimate still
  pending, the button is enabled, although the estimate is not successful.
\<close>

theorem submit_enabled_while_pending:
  "\<not> submitDisabled (exDraft\<lparr>amount := Some 5\<rparr>)
   \<and> \<not> isSuccessful (estimatedFee (exDraft\<lparr>amount := Some 5\<rparr>))"
  by (simp add: submitDisabled_def exDraft_def initialState_def isFailed_def isSuccessful_def)

text \<open>
  C1, amended: the submit button is enabled if and only if the amount is set, the amount is
  not zero, \<open>inputError\<close> is unset and \<open>estimatedFee\<close> is not in the failed state; a pending
  estimate leaves the button enabled.
\<close>

theorem submit_enabled_iff:
  "\<not> submitDisabled s \<longleftrightarrow>
     (\<exists>a. amount s = Some a \<and> a \<noteq> 0) \<and> inputError s = None \<and> \<not> isFailed (estimatedFee s)"
  by (cases "amount s") (auto simp add: submitDisabled_def)

theorem submit_enabled_iff_witness:
  "\<not> submitDisabled (exDraft\<lparr>amount := Some 5, estimatedFee := Successful 2\<rparr>)
   \<and> submitDisabled (exDraft\<lparr>amount := Some 5, estimatedFee := Failed ''no''\<rparr>)"
  using submit_enabled_iff [of "exDraft\<lparr>amount := Some 5, estimatedFee := Successful 2\<rparr>"]
    submit_enabled_iff [of "exDraft\<lparr>amount := Some 5, estimatedFee := Failed ''no''\<rparr>"]
  by (simp add: exDraft_def initialState_def isFailed_def)

section \<open>Selecting the source chain\<close>

text \<open>
  C10: when the environment or the chain pair is not initialised, or no configured chain
  has a key different from the chosen chain's key, selecting a source chain changes nothing:
  the whole state (chains, amount, inputError, token, estimatedFee, the picker list and the
  balances) is as before.
\<close>

theorem onChainFromButtonClick_noop:
  assumes "env = None \<or> chains s = None
           \<or> (\<exists>e. env = Some e \<and> (\<forall>chain \<in> set (env_chains e). key chain = key frm))"
  shows "onChainFromButtonClick env s frm = s"
proof -
  have none: "find (\<lambda>chain. key chain \<noteq> key frm) cs = None"
    if "\<forall>chain \<in> set cs. key chain = key frm" for cs :: "Chain list"
    using that by (simp add: find_None_iff)
  from assms show ?thesis
    by (auto simp add: onChainFromButtonClick_def none split: option.splits)
qed

theorem onChainFromButtonClick_noop_witness:
  "onChainFromButtonClick None exDraft exPolygon = exDraft
   \<and> onChainFromButtonClick (Some exEnv) initialState exPolygon = initialState
   \<and> onChainFromButtonClick (Some (exEnv\<lparr>env_chains := [exPolygon]\<rparr>)) exDraft exPolygon = exDraft"
  using onChainFromButtonClick_noop [of None exDraft exPolygon]
    onChainFromButtonClick_noop [of "Some exEnv" initialState exPolygon]
    onChainFromButtonClick_noop [of "Some (exEnv\<lparr>env_chains := [exPolygon]\<rparr>)" exDraft exPolygon]
  by (simp add: initialState_def)


lemma find_first:
  fixes cs :: "Chain list"
  assumes "i < length cs" and "key (cs ! i) \<noteq> key frm" and "\<forall>j<i. key (cs ! j) = key frm"
  shows "find (\<lambda>chain. key chain \<noteq> key frm) cs = Some (cs ! i)"
  using assms by (simp add: find_Some_iff) blast

lemma find_differs:
  fixes cs :: "Chain list"
  assumes "find (\<lambda>chain. key chain \<noteq> key frm) cs = Some to"
  shows "key to \<noteq> key frm"
  using assms by (auto simp add: find_Some_iff)

lemma find_exists:
  fixes cs :: "Chain list"
  assumes "twoDistinctKeys cs"
  shows "\<exists>to. find (\<lambda>chain. key chain \<noteq> key frm) cs = Some to"
proof (cases "find (\<lambda>chain. key chain \<noteq> key frm) cs")
  case None
  then have "\<forall>chain \<in> set cs. key chain = key frm" by (simp add: find_None_iff)
  with assms show ?thesis unfolding twoDistinctKeys_def by metis
next
  case (Some to)
  then show ?thesis by blast
qed

lemma selectFrom_st:
  "st (selectFrom env account frm w) = onChainFromButtonClick env (st w) frm"
  by (simp add: selectFrom_def runChainsEffects_def estimateEffect_def balanceEffect_def
      split: option.splits)

text \<open>
  C5, as stated, fails: after a new source chain is selected on a draft that shows an input
  error and holds a fee estimate, the input error is still set and the estimate is still
  the old successful one, also once the effects of the change have run.
\<close>

theorem select_from_keeps_error_and_fee:
  "inputError (st (selectFrom (Some exEnv) exAccount exPolygon (mount exFilled :: string World)))
     = Some ''too much''
   \<and> estimatedFee (st (selectFrom (Some exEnv) exAccount exPolygon (mount exFilled :: string World)))
     = Successful 3
   \<and> chains (st (selectFrom (Some exEnv) exAccount exPolygon (mount exFilled :: string World)))
     = Some \<lparr>from_chain = exPolygon, to_chain = exEthereum\<rparr>"
  by (simp add: world_defs ex_defs)

text \<open>
  C5, amended: when the environment and the chain pair are initialised and some configured
  chain has a key different from the selected chain's key, selecting a source chain stores
  the selected chain as \<open>from\<close> and the first configured chain with a different key as
  \<open>to\<close>, clears the amount and closes the picker; every other cell, \<open>inputError\<close> and
  \<open>estimatedFee\<close> among them, keeps its value, also after the effects of the change
  have run.
\<close>

theorem select_from_result:
  fixes w :: "'err World"
  assumes "env = Some e" and "chains (st w) = Some c"
    and "i < length (env_chains e)" and "key (env_chains e ! i) \<noteq> key frm"
    and "\<forall>j<i. key (env_chains e ! j) = key frm"
  shows "onChainFromButtonClick env (st w) frm
           = (st w)\<lparr>chains := Some \<lparr>from_chain = frm, to_chain = env_chains e ! i\<rparr>,
                    list := None, amount := None\<rparr>
         \<and> st (selectFrom env account frm w) = onChainFromButtonClick env (st w) frm"
proof -
  have "find (\<lambda>chain. key chain \<noteq> key frm) (env_chains e) = Some (env_chains e ! i)"
    using assms(3-5) by (rule find_first)
  with assms(1,2) show ?thesis
    by (simp add: onChainFromButtonClick_def selectFrom_st)
qed

theorem select_from_result_witness:
  "onChainFromButtonClick (Some exEnv) exFilled exPolygon
     = exFilled\<lparr>chains := Some \<lparr>from_chain = exPolygon, to_chain = exEthereum\<rparr>,
                list := None, amount := None\<rparr>
   \<and> st (selectFrom (Some exEnv) exAccount exPolygon (mount exFilled :: string World))
     = onChainFromButtonClick (Some exEnv) exFilled exPolygon"
  using select_from_result [of "Some exEnv" exEnv "mount exFilled :: string World"
      "\<lparr>from_chain = exEthereum, to_chain = exPolygon\<rparr>" 0 exPolygon exAccount]
  by (simp add: mount_def ex_defs)

text \<open>
  A selection either leaves the pair alone or stores a pair whose second chain was found
  with a key different from the first one's.
\<close>

lemma click_preserves:
  assumes "distinctPair s"
  shows "distinctPair (onChainFromButtonClick env s frm)"
proof (cases "chainsWritten env s frm")
  case True
  then obtain e to where "env = Some e"
    and f: "find (\<lambda>chain. key chain \<noteq> key frm) (env_chains e) = Some to"
    and "chains s \<noteq> None"
    by (auto simp add: chainsWritten_def split: option.splits)
  with find_differs [OF f] show ?thesis
    by (auto simp add: onChainFromButtonClick_def distinctPair_def)
next
  case False
  then have "onChainFromButtonClick env s frm = s"
    by (auto simp add: chainsWritten_def onChainFromButtonClick_def split: option.splits)
  with assms show ?thesis by simp
qed

lemma click_establishes:
  assumes "env = Some e" and "twoDistinctKeys (env_chains e)" and "chains s \<noteq> None"
  shows "distinctPair (onChainFromButtonClick env s frm)"
proof -
  from find_exists [OF assms(2)] obtain to
    where f: "find (\<lambda>chain. key chain \<noteq> key frm) (env_chains e) = Some to" by blast
  with find_differs [OF f] assms show ?thesis
    by (auto simp add: onChainFromButtonClick_def distinctPair_def)
qed

lemma clicks_preserve:
  "distinctPair s \<Longrightarrow> distinctPair (clicks env s fs)"
  unfolding clicks_def
  by (induction fs arbitrary: s) (simp_all add: click_preserves)

lemma clicks_establish:
  assumes "env = Some e" and "twoDistinctKeys (env_chains e)" and "chains s \<noteq> None"
    and "fs \<noteq> []"
  shows "distinctPair (clicks env s fs)"
proof (cases fs)
  case Nil
  with assms show ?thesis by simp
next
  case (Cons f fs')
  have "distinctPair (onChainFromButtonClick env s f)"
    using assms by (simp add: click_establishes)
  then have "distinctPair (clicks env (onChainFromButtonClick env s f) fs')"
    by (rule clicks_preserve)
  with Cons show ?thesis by (simp add: clicks_def)
qed

lemma getChains_twoDistinctKeys: "twoDistinctKeys (getChains a b n)"
  by (auto simp add: twoDistinctKeys_def getChains_def)

text \<open>
  C9: along every sequence of source-chain selections the two chains of the pair have
  different keys after every selection. This holds from any state whose pair has different
  keys, whatever the configuration; and, when the configured chains carry two different
  keys (as those of \<open>getChains\<close> do), from any state with a pair, after the first selection
  and every later one.
\<close>

theorem from_to_distinct_after_every_click:
  assumes "n \<le> length fs"
  shows "(distinctPair s \<longrightarrow> distinctPair (clicks env s (take n fs)))
       \<and> (env = Some e \<and> twoDistinctKeys (env_chains e) \<and> chains s \<noteq> None \<and> 0 < n
            \<longrightarrow> distinctPair (clicks env s (take n fs)))"
proof (intro conjI impI)
  assume "distinctPair s"
  then show "distinctPair (clicks env s (take n fs))"
    by (rule clicks_preserve)
next
  assume a: "env = Some e \<and> twoDistinctKeys (env_chains e) \<and> chains s \<noteq> None \<and> 0 < n"
  with assms have "take n fs \<noteq> []" by auto
  with a show "distinctPair (clicks env s (take n fs))"
    by (simp add: clicks_establish)
qed

theorem from_to_distinct_after_every_click_witness:
  "twoDistinctKeys (env_chains exEnv)
   \<and> distinctPair (clicks (Some exEnv) exDraft (take 2 [exPolygon, exEthereum, exPolygon]))
   \<and> chains (clicks (Some exEnv) exDraft (take 2 [exPolygon, exEthereum, exPolygon]))
      = Some \<lparr>from_chain = exEthereum, to_chain = exPolygon\<rparr>"
  using from_to_distinct_after_every_click
    [of 2 "[exPolygon, exEthereum, exPolygon]" exDraft "Some exEnv" exEnv]
  by (auto simp add: clicks_def ex_defs onChainFromButtonClick_def twoDistinctKeys_def
      distinctPair_def)

section \<open>Submitting\<close>

text \<open>
  \<open>onFormSubmit\<close> is the \<open>onSubmit\<close> handler of the form, and the only submit control of
  the form is the Continue button: the handler runs on a submit event, which the button
  lets through only while it is not disabled.
\<close>

text \<open>
  C7: the submit action hands a record to \<open>onSubmit\<close> only when the amount is set (and not
  zero), \<open>inputError\<close> is unset and \<open>estimatedFee\<close> is successful; the record carries the
  selected token, chains and amount, and its \<open>estimatedFee\<close> is the resolved data of the
  successful estimate.
\<close>

theorem submit_emits_only_when_ready:
  assumes "\<not> submitDisabled s" and "onFormSubmit s = Some tx"
  shows "\<exists>c t a fee. chains s = Some c \<and> token s = Some t
           \<and> amount s = Some a \<and> a \<noteq> 0
           \<and> inputError s = None
           \<and> estimatedFee s = Successful fee
           \<and> tx = \<lparr>tx_token = t, tx_from = from_chain c, tx_to = to_chain c,
                    tx_amount = a, tx_estimatedFee = fee\<rparr>
           \<and> tx_estimatedFee tx = fee"
  using assms
  by (auto simp add: onFormSubmit_def submitDisabled_def split: option.splits AsyncTask.splits)

theorem submit_emits_only_when_ready_witness:
  "\<not> submitDisabled (exFilled\<lparr>inputError := None\<rparr>)
   \<and> onFormSubmit (exFilled\<lparr>inputError := None\<rparr>)
     = Some \<lparr>tx_token = ETH_TOKEN, tx_from = exEthereum, tx_to = exPolygon, tx_amount = 5,
             tx_estimatedFee = 3\<rparr>
   \<and> inputError (exFilled\<lparr>inputError := None\<rparr>) = None
   \<and> estimatedFee (exFilled\<lparr>inputError := None\<rparr>) = Successful 3"
proof -
  have b: "\<not> submitDisabled (exFilled\<lparr>inputError := None\<rparr>)"
    by (simp add: submitDisabled_def isFailed_def ex_defs)
  have h: "onFormSubmit (exFilled\<lparr>inputError := None\<rparr>)
     = Some \<lparr>tx_token = ETH_TOKEN, tx_from = exEthereum, tx_to = exPolygon, tx_amount = 5,
             tx_estimatedFee = 3\<rparr>"
    by (simp add: onFormSubmit_def ex_defs)
  from submit_emits_only_when_ready [OF b h] b h show ?thesis
    by auto
qed

section \<open>Fee estimation\<close>

text \<open>
  C2, as stated, fails: a draft holds a successful estimate for the default pair; the source
  chain is changed and the effects of the change run, starting the call for the new pair.
  The estimate read at that point is still the old successful value, not pending.
\<close>

theorem estimate_not_reset_on_change:
  "estimateCalls (selectFrom (Some exEnv) exAccount exPolygon
       (mount (exDraft\<lparr>estimatedFee := Successful 3\<rparr>) :: string World))
     = [\<lparr>ea_from = exPolygon, ea_to = exEthereum, ea_token = ETH_TOKEN,
         destinationAddress = exAccount\<rparr>]
   \<and> estimatedFee (st (selectFrom (Some exEnv) exAccount exPolygon
       (mount (exDraft\<lparr>estimatedFee := Successful 3\<rparr>) :: string World))) = Successful 3
   \<and> estimatedFee (st (selectFrom (Some exEnv) exAccount exPolygon
       (mount (exDraft\<lparr>estimatedFee := Successful 3\<rparr>) :: string World))) \<noteq> Pending"
  by (simp add: world_defs ex_defs)

text \<open>
  C2, amended: a change of chains, token or account does not reset \<open>estimatedFee\<close>. The
  estimation effect writes no state cell, so after the change and its effects
  \<open>estimatedFee\<close> has the value it had before (pending only if it was pending); when
  chains and token are set the effect starts exactly one estimation call, for the current
  chains, token and account.
\<close>

theorem estimate_effect_keeps_fee:
  "st (estimateEffect account w) = st w
   \<and> estimatedFee (st (runChainsEffects account w)) = estimatedFee (st w)
   \<and> estimatedFee (st (selectFrom env account frm w)) = estimatedFee (st w)
   \<and> estimateCalls (estimateEffect account w) =
       estimateCalls w @
         (case (chains (st w), token (st w)) of
            (Some c, Some t) \<Rightarrow>
              [\<lparr>ea_from = from_chain c, ea_to = to_chain c, ea_token = t,
                destinationAddress = account\<rparr>]
          | _ \<Rightarrow> [])"
  by (auto simp add: estimateEffect_def balanceEffect_def runChainsEffects_def selectFrom_def
      onChainFromButtonClick_def split: option.splits)

theorem estimate_effect_keeps_fee_witness:
  "estimatedFee (st (runChainsEffects ''0xdef''
       (mount (exDraft\<lparr>estimatedFee := Failed ''old''\<rparr>) :: string World))) = Failed ''old''
   \<and> estimateCalls (estimateEffect ''0xdef''
       (mount (exDraft\<lparr>estimatedFee := Failed ''old''\<rparr>) :: string World))
     = [\<lparr>ea_from = exEthereum, ea_to = exPolygon, ea_token = ETH_TOKEN,
         destinationAddress = ''0xdef''\<rparr>]"
  using estimate_effect_keeps_fee
    [of "''0xdef''" "mount (exDraft\<lparr>estimatedFee := Failed ''old''\<rparr>) :: string World"]
  by (simp add: mount_def ex_defs)

text \<open>
  C3, as stated, fails: two estimation calls are in flight, the older for the pair
  ethereum to polygon-hermez, the newer for the pair chosen afterwards. The newer call is
  fulfilled with 7, then the older with 5: the older result is written, and the form shows
  the fee 5 of the older pair next to the newer pair.
\<close>

theorem stale_estimate_overwrites:
  "estimateCalls exTwoCalls
     = [\<lparr>ea_from = exEthereum, ea_to = exPolygon, ea_token = ETH_TOKEN,
         destinationAddress = exAccount\<rparr>,
        \<lparr>ea_from = exPolygon, ea_to = exEthereum, ea_token = ETH_TOKEN,
         destinationAddress = exAccount\<rparr>]
   \<and> estimatedFee (st (settleEstimate exIsInsufficient exParseError 1 (Fulfilled 7) exTwoCalls))
     = Successful 7
   \<and> estimatedFee (st exRace) = Successful 5
   \<and> chains (st exRace) = Some \<lparr>from_chain = exPolygon, to_chain = exEthereum\<rparr>"
  by (simp add: world_defs ex_defs)

text \<open>
  C3, amended: there is no version or identity check. The completion of any estimation
  call in flight, whichever call it is, is written into \<open>estimatedFee\<close> when the call is
  fulfilled (successful, with its fee) or rejected with the insufficient-funds kind
  (failed): \<open>estimatedFee\<close> reflects the completion processed last, not the request
  started last.
\<close>

theorem every_completion_is_written:
  assumes "i < length (estimateCalls w)"
  shows "estimatedFee (st (settleEstimate isI pE i (Fulfilled fee) w)) = Successful fee
       \<and> (isI error \<longrightarrow>
            estimatedFee (st (settleEstimate isI pE i (Rejected error) w))
              = Failed insufficientFundsMessage)"
  using assms by (simp add: settleEstimate_def estimateSettled_def)

theorem every_completion_is_written_witness:
  "(0::nat) < length (estimateCalls exTwoCalls)
   \<and> estimatedFee (st (settleEstimate exIsInsufficient exParseError 0 (Fulfilled 5) exTwoCalls))
     = Successful 5
   \<and> estimatedFee (st (settleEstimate exIsInsufficient exParseError 0
        (Rejected ''INSUFFICIENT_FUNDS'') exTwoCalls))
     = Failed insufficientFundsMessage"
proof -
  have h: "(0::nat) < length (estimateCalls exTwoCalls)"
    by (simp add: world_defs ex_defs)
  from every_completion_is_written [OF h, of exIsInsufficient exParseError 5
      "''INSUFFICIENT_FUNDS''"] h
  show ?thesis by (simp add: exIsInsufficient_def)
qed

text \<open>
  C4, as stated, fails: the estimation call of a fresh draft is rejected with an error that
  is not of the insufficient-funds kind. One notification is sent, but \<open>estimatedFee\<close> is
  not failed: it is still pending.
\<close>

theorem generic_failure_leaves_fee_pending:
  "estimatedFee (st (settleEstimate exIsInsufficient exParseError 0 (Rejected ''network down'')
       (estimateEffect exAccount (mount exDraft)))) = Pending
   \<and> \<not> isFailed (estimatedFee (st (settleEstimate exIsInsufficient exParseError 0
       (Rejected ''network down'') (estimateEffect exAccount (mount exDraft)))))
   \<and> snackbar (settleEstimate exIsInsufficient exParseError 0 (Rejected ''network down'')
       (estimateEffect exAccount (mount exDraft)))
     = [\<lparr>msg_type = ''error-msg'', msg_text = ''parsed: network down''\<rparr>]"
  by (simp add: world_defs ex_defs isFailed_def)

text \<open>
  C4, amended: for every fee-estimation failure that is not of the insufficient-funds kind
  the form state, \<open>estimatedFee\<close> included, is left as it was; when the error parser
  resolves, exactly one call to the notification sink is made, of type \<open>error-msg\<close> and
  carrying the parsed message, and when the parser fails no call is made.
\<close>

theorem generic_failure_notifies_once:
  assumes "\<not> isI error"
  shows "st (estimateSettled isI pE (Rejected error) w) = st w
       \<and> (pE error = Fulfilled errorMessage \<longrightarrow>
            snackbar (estimateSettled isI pE (Rejected error) w)
              = snackbar w @ [\<lparr>msg_type = ''error-msg'', msg_text = errorMessage\<rparr>])
       \<and> (pE error = Rejected error' \<longrightarrow>
            snackbar (estimateSettled isI pE (Rejected error) w) = snackbar w)"
  using assms by (cases "pE error") (simp_all add: estimateSettled_def)

theorem generic_failure_notifies_once_witness:
  "\<not> exIsInsufficient ''network down''
   \<and> exParseError ''network down'' = Fulfilled ''parsed: network down''
   \<and> st (estimateSettled exIsInsufficient exParseError (Rejected ''network down'')
        (mount (exDraft\<lparr>estimatedFee := Successful 3\<rparr>)))
     = exDraft\<lparr>estimatedFee := Successful 3\<rparr>
   \<and> snackbar (estimateSettled exIsInsufficient exParseError (Rejected ''network down'')
        (mount (exDraft\<lparr>estimatedFee := Successful 3\<rparr>)))
     = [\<lparr>msg_type = ''error-msg'', msg_text = ''parsed: network down''\<rparr>]"
proof -
  have h: "\<not> exIsInsufficient ''network down''"
    by (simp add: exIsInsufficient_def)
  have p: "exParseError ''network down'' = Fulfilled ''parsed: network down''"
    by (simp add: exParseError_def)
  from generic_failure_notifies_once [where isI = exIsInsufficient and error = "''network down''"
      and pE = exParseError and w = "mount (exDraft\<lparr>estimatedFee := Successful 3\<rparr>)"
      and errorMessage = "''parsed: network down''"] h p
  show ?thesis by (simp add: mount_def)
qed

text \<open>
  C6, as stated, fails on the message: after an insufficient-funds failure the error
  carried by \<open>estimatedFee\<close> is not the text "insufficient balance to cover fees".
\<close>

theorem insufficient_funds_message_differs:
  "estimatedFee (st (settleEstimate exIsInsufficient exParseError 0
       (Rejected ''INSUFFICIENT_FUNDS'') (estimateEffect exAccount (mount exDraft))))
     = Failed (''You don'' @ [CHR 0x27] @ ''t have enough ETH to pay for the fees'')
   \<and> estimatedFee (st (settleEstimate exIsInsufficient exParseError 0
       (Rejected ''INSUFFICIENT_FUNDS'') (estimateEffect exAccount (mount exDraft))))
     \<noteq> Failed ''insufficient balance to cover fees''"
  by (simp add: world_defs ex_defs insufficientFundsMessage_def)

text \<open>
  C6, amended: for every fee-estimation failure of the insufficient-funds kind,
  \<open>estimatedFee\<close> becomes failed with the fixed message
  "You don't have enough ETH to pay for the fees", and no call to the notification sink is
  made.
\<close>

theorem insufficient_funds_fails_quietly:
  assumes "isI error"
  shows "estimatedFee (st (estimateSettled isI pE (Rejected error) w))
           = Failed (''You don'' @ [CHR 0x27] @ ''t have enough ETH to pay for the fees'')
       \<and> snackbar (estimateSettled isI pE (Rejected error) w) = snackbar w"
  using assms by (simp add: estimateSettled_def insufficientFundsMessage_def)

theorem insufficient_funds_fails_quietly_witness:
  "exIsInsufficient ''INSUFFICIENT_FUNDS''
   \<and> isFailed (estimatedFee (st (estimateSettled exIsInsufficient exParseError
        (Rejected ''INSUFFICIENT_FUNDS'') (mount exDraft))))
   \<and> snackbar (estimateSettled exIsInsufficient exParseError
        (Rejected ''INSUFFICIENT_FUNDS'') (mount exDraft)) = []"
proof -
  have h: "exIsInsufficient ''INSUFFICIENT_FUNDS''"
    by (simp add: exIsInsufficient_def)
  from insufficient_funds_fails_quietly [where isI = exIsInsufficient
      and error = "''INSUFFICIENT_FUNDS''" and pE = exParseError and w = "mount exDraft"] h
  show ?thesis by (simp add: mount_def isFailed_def)
qed

section \<open>Failures of the asynchronous calls\<close>

text \<open>
  C8, as stated, fails: the balance calls have a \<open>then\<close> and no \<open>catch\<close>, so a rejected
  balance call reaches no handler; and an estimation failure of another kind than
  insufficient funds is not turned into the failed state.
\<close>

theorem balance_failure_is_unhandled:
  "unhandled (settleBalance 0 (Rejected ''timeout'') (balanceEffect exAccount (mount exDraft)))
     = [''timeout'']
   \<and> estimatedFee (st (settleEstimate exIsInsufficient exParseError 0 (Rejected ''timeout'')
        (estimateEffect exAccount (mount exDraft)))) = Pending"
  by (simp add: world_defs ex_defs)

text \<open>
  C8, amended: a fee-estimation failure is caught at the call: the insufficient-funds kind
  becomes the failed state of \<open>estimatedFee\<close>, any other kind leaves the form state as it
  was and is handed to the error parser. Balance calls and the error parser have no failure
  handler: a failed balance call leaves the balance and the rest of the form state as they
  were and its rejection stays unhandled, as does a failure of the error parser.
\<close>

theorem failures_of_async_calls:
  "(isI error \<longrightarrow>
      estimatedFee (st (estimateSettled isI pE (Rejected error) w)) = Failed insufficientFundsMessage
      \<and> unhandled (estimateSettled isI pE (Rejected error) w) = unhandled w)
   \<and> (\<not> isI error \<and> pE error = Fulfilled m \<longrightarrow>
      st (estimateSettled isI pE (Rejected error) w) = st w
      \<and> unhandled (estimateSettled isI pE (Rejected error) w) = unhandled w)
   \<and> (\<not> isI error \<and> pE error = Rejected error' \<longrightarrow>
      st (estimateSettled isI pE (Rejected error) w) = st w
      \<and> unhandled (estimateSettled isI pE (Rejected error) w) = unhandled w @ [error'])
   \<and> st (balanceSettled cell (Rejected error) w) = st w
   \<and> unhandled (balanceSettled cell (Rejected error) w) = unhandled w @ [error]"
  by (simp add: estimateSettled_def balanceSettled_def)

theorem failures_of_async_calls_witness:
  "exIsInsufficient ''INSUFFICIENT_FUNDS''
   \<and> unhandled (estimateSettled exIsInsufficient exParseError (Rejected ''INSUFFICIENT_FUNDS'')
        (mount exDraft)) = []
   \<and> balanceFrom (st (balanceSettled BalanceFrom (Rejected ''INSUFFICIENT_FUNDS'')
        (mount (exDraft\<lparr>balanceFrom := Some 9\<rparr>) :: string World))) = Some 9
   \<and> unhandled (balanceSettled BalanceFrom (Rejected ''INSUFFICIENT_FUNDS'')
        (mount (exDraft\<lparr>balanceFrom := Some 9\<rparr>) :: string World)) = [''INSUFFICIENT_FUNDS'']"
proof -
  have h: "exIsInsufficient ''INSUFFICIENT_FUNDS''"
    by (simp add: exIsInsufficient_def)
  from failures_of_async_calls [of exIsInsufficient "''INSUFFICIENT_FUNDS''" exParseError
      "mount exDraft" "''m''" "''e''" BalanceFrom]
    failures_of_async_calls [of exIsInsufficient "''INSUFFICIENT_FUNDS''" exParseError
      "mount (exDraft\<lparr>balanceFrom := Some 9\<rparr>)" "''m''" "''e''" BalanceFrom] h
  show ?thesis by (simp add: mount_def)
qed

end
